theory Spec2Isabelle
  imports
    Main
    "HOL-Library.Char_ord"
    "HOL-Library.List_Lexorder"
    "HOL-Library.Log_Nat"
    "HOL-Library.Sublist"
begin

section \<open>Python values used by the sales ledger\<close>

subsection \<open>Floats\<close>

text \<open>
  A Python \<open>float\<close> is an IEEE-754 binary64 number. A finite float is modelled by the
  rational number it denotes, and every arithmetic operation computes the exact result and
  rounds it to the nearest number with a 53-bit significand, ties to even (\<open>fl\<close>).
  The exponent range is not bounded: overflow to infinity, subnormal numbers and NaN are
  outside the model.
\<close>

type_synonym pyfloat = rat

definition pow2 :: "int \<Rightarrow> rat" where
  "pow2 e = (if 0 \<le> e then 2 ^ nat e else 1 / 2 ^ nat (- e))"

definition round_half_even :: "rat \<Rightarrow> int" where
  "round_half_even x =
     (let f = \<lfloor>x\<rfloor>; r = x - of_int f
      in if r < 1 / 2 then f
         else if 1 / 2 < r then f + 1
         else if even f then f else f + 1)"

definition log2_floor :: "rat \<Rightarrow> int" where
  \<comment> \<open>for \<open>x > 0\<close>: the \<open>k\<close> with \<open>2^k \<le> x < 2^(k+1)\<close>\<close>
  "log2_floor x =
     (if 1 \<le> x then bitlen \<lfloor>x\<rfloor> - 1 else - bitlen (\<lceil>1 / x\<rceil> - 1))"

definition fl :: "rat \<Rightarrow> pyfloat" where
  "fl x =
     (if x = 0 then 0
      else let e = log2_floor \<bar>x\<bar> - 52
           in of_int (round_half_even (x / pow2 e)) * pow2 e)"

definition float_add :: "pyfloat \<Rightarrow> pyfloat \<Rightarrow> pyfloat" where
  "float_add a b = fl (a + b)"

definition int_mul_float :: "int \<Rightarrow> pyfloat \<Rightarrow> pyfloat" where
  \<comment> \<open>\<open>int * float\<close>: the integer is converted to a float first\<close>
  "int_mul_float n x = fl (fl (of_int n) * x)"

definition float_div_int :: "pyfloat \<Rightarrow> int \<Rightarrow> pyfloat" where
  \<comment> \<open>\<open>float / int\<close> with a divisor that is not zero\<close>
  "float_div_int x n = fl (x / fl (of_int n))"

definition round2 :: "pyfloat \<Rightarrow> pyfloat" where
  \<comment> \<open>\<open>round(x, 2)\<close>: the exact value is rounded half-to-even to two decimals, and the
      decimal result is converted back to the nearest float\<close>
  "round2 x = fl (of_int (round_half_even (x * 100)) / 100)"

definition py_sum :: "pyfloat list \<Rightarrow> pyfloat" where
  \<comment> \<open>the builtin \<open>sum\<close>: left-to-right accumulation from \<open>0\<close>\<close>
  "py_sum xs = foldl float_add 0 xs"

subsection \<open>Strings\<close>

text \<open>
  A \<open>str\<close> is a list of characters; a character is a code point below 256, so
  \<open>length\<close> is Python's \<open>len\<close> and the order on strings (lexicographic, by code
  point) is Python's.
\<close>

definition isspace :: "char \<Rightarrow> bool" where
  "isspace c = (of_char c \<in> {9, 10, 11, 12, 13, 28, 29, 30, 31, 32, 133, 160 :: nat})"

definition strip :: "string \<Rightarrow> string" where
  "strip s = rev (dropWhile isspace (rev (dropWhile isspace s)))"

definition lower_char :: "char \<Rightarrow> char" where
  "lower_char c =
     (let n = of_char c :: nat
      in if (65 \<le> n \<and> n \<le> 90) \<or> (192 \<le> n \<and> n \<le> 222 \<and> n \<noteq> 215)
         then char_of (n + 32) else c)"

definition lower :: "string \<Rightarrow> string" where
  "lower s = map lower_char s"

definition is_digit :: "char \<Rightarrow> bool" where
  "is_digit c = (48 \<le> (of_char c :: nat) \<and> (of_char c :: nat) \<le> 57)"

definition digit_val :: "char \<Rightarrow> int" where
  "digit_val c = int (of_char c) - 48"

definition digit_char :: "int \<Rightarrow> char" where
  "digit_char n = char_of (48 + nat n)"

subsection \<open>Dictionaries\<close>

text \<open>
  A \<open>dict\<close> keeps its keys in the order of their first insertion, and the rankings depend
  on that order, so a dictionary is an association list with distinct keys.
  \<open>upsert k f d\<close> is \<open>stats[k] = f(stats[k])\<close> on a \<open>defaultdict\<close> whose default
  value is \<open>d\<close>.
\<close>

fun upsert :: "'k \<Rightarrow> ('v \<Rightarrow> 'v) \<Rightarrow> 'v \<Rightarrow> ('k \<times> 'v) list \<Rightarrow> ('k \<times> 'v) list" where
  "upsert k f d [] = [(k, f d)]"
| "upsert k f d ((k', v) # kvs) =
     (if k = k' then (k', f v) # kvs else (k', v) # upsert k f d kvs)"

subsection \<open>Sorting, maximum and slicing\<close>

definition sorted_reverse :: "('a \<Rightarrow> 'b::linorder) \<Rightarrow> 'a list \<Rightarrow> 'a list" where
  \<comment> \<open>\<open>sorted(xs, key=f, reverse=True)\<close>: descending by key, and stable (elements with
      equal keys keep their original order)\<close>
  "sorted_reverse f xs = rev (sort_key f (rev xs))"

fun max_from :: "('a \<Rightarrow> 'b::linorder) \<Rightarrow> 'a \<Rightarrow> 'a list \<Rightarrow> 'a" where
  "max_from f m [] = m"
| "max_from f m (x # xs) = max_from f (if f m < f x then x else m) xs"

definition max_key :: "('a \<Rightarrow> 'b::linorder) \<Rightarrow> 'a list \<Rightarrow> 'a option" where
  \<comment> \<open>\<open>max(xs, key=f)\<close>: the first element is kept until a strictly greater key is met;
      \<open>None\<close> stands for the \<open>ValueError\<close> on an empty sequence\<close>
  "max_key f xs = (case xs of [] \<Rightarrow> None | x # ys \<Rightarrow> Some (max_from f x ys))"

definition slice_to :: "'a list \<Rightarrow> int \<Rightarrow> 'a list" where
  \<comment> \<open>\<open>xs[:n]\<close>: a negative \<open>n\<close> counts from the end\<close>
  "slice_to xs n = (if 0 \<le> n then take (nat n) xs else take (length xs - nat (- n)) xs)"

subsection \<open>Dates\<close>

record datetime =
  year :: int
  month :: int
  day :: int

definition is_leap :: "int \<Rightarrow> bool" where
  "is_leap y = (y mod 4 = 0 \<and> (y mod 100 \<noteq> 0 \<or> y mod 400 = 0))"

definition days_in_month :: "int \<Rightarrow> int \<Rightarrow> int" where
  "days_in_month y m =
     (if m = 2 then (if is_leap y then 29 else 28)
      else if m \<in> {4, 6, 9, 11} then 30 else 31)"

definition make_datetime :: "int \<Rightarrow> int \<Rightarrow> int \<Rightarrow> datetime option" where
  \<comment> \<open>the constructor \<open>datetime(y, m, d)\<close>; \<open>None\<close> is its \<open>ValueError\<close>\<close>
  "make_datetime y m d =
     (if 1 \<le> y \<and> y \<le> 9999 \<and> 1 \<le> m \<and> m \<le> 12 \<and> 1 \<le> d \<and> d \<le> days_in_month y m
      then Some \<lparr>year = y, month = m, day = d\<rparr> else None)"

fun match_month :: "string \<Rightarrow> (int \<times> string) option" where
  \<comment> \<open>the directive \<open>%m\<close>, the pattern \<open>1[0-2]|0[1-9]|[1-9]\<close>, followed by \<open>-\<close>\<close>
  "match_month (a # b # c # rest) =
     (if a = CHR ''1'' \<and> b \<in> set ''012'' \<and> c = CHR ''-'' then Some (10 + digit_val b, rest)
      else if a = CHR ''0'' \<and> b \<in> set ''123456789'' \<and> c = CHR ''-'' then Some (digit_val b, rest)
      else if a \<in> set ''123456789'' \<and> b = CHR ''-'' then Some (digit_val a, c # rest)
      else None)"
| "match_month [a, b] =
     (if a \<in> set ''123456789'' \<and> b = CHR ''-'' then Some (digit_val a, []) else None)"
| "match_month _ = None"

fun match_day :: "string \<Rightarrow> (int \<times> string) option" where
  \<comment> \<open>the directive \<open>%d\<close>, the pattern \<open>3[0-1]|[1-2]\d|0[1-9]|[1-9]| [1-9]\<close>: the first
      alternative that matches is taken\<close>
  "match_day (a # b # rest) =
     (if a = CHR ''3'' \<and> b \<in> set ''01'' then Some (30 + digit_val b, rest)
      else if a \<in> set ''12'' \<and> is_digit b then Some (10 * digit_val a + digit_val b, rest)
      else if a = CHR ''0'' \<and> b \<in> set ''123456789'' then Some (digit_val b, rest)
      else if a \<in> set ''123456789'' then Some (digit_val a, b # rest)
      else if a = CHR '' '' \<and> b \<in> set ''123456789'' then Some (digit_val b, rest)
      else None)"
| "match_day [a] = (if a \<in> set ''123456789'' then Some (digit_val a, []) else None)"
| "match_day [] = None"

fun strptime :: "string \<Rightarrow> datetime option" where
  \<comment> \<open>\<open>datetime.strptime(s, '%Y-%m-%d')\<close>; \<open>None\<close> is its \<open>ValueError\<close> (no match,
      unconverted data left, or no such calendar date)\<close>
  "strptime (y1 # y2 # y3 # y4 # dash # rest) =
     (if is_digit y1 \<and> is_digit y2 \<and> is_digit y3 \<and> is_digit y4 \<and> dash = CHR ''-'' then
        (case match_month rest of
           None \<Rightarrow> None
         | Some (m, rest') \<Rightarrow>
             (case match_day rest' of
                None \<Rightarrow> None
              | Some (d, rest'') \<Rightarrow>
                  if rest'' = [] then
                    make_datetime
                      (1000 * digit_val y1 + 100 * digit_val y2 + 10 * digit_val y3 + digit_val y4)
                      m d
                  else None))
      else None)"
| "strptime _ = None"

definition pad2 :: "int \<Rightarrow> string" where
  "pad2 n = [digit_char (n div 10 mod 10), digit_char (n mod 10)]"

definition pad4 :: "int \<Rightarrow> string" where
  "pad4 n = pad2 (n div 100) @ pad2 n"

definition strftime_ymd :: "datetime \<Rightarrow> string" where
  \<comment> \<open>\<open>strftime('%Y-%m-%d')\<close>, the year written with four digits\<close>
  "strftime_ymd t = pad4 (year t) @ ''-'' @ pad2 (month t) @ ''-'' @ pad2 (day t)"

definition strftime_ym :: "datetime \<Rightarrow> string" where
  \<comment> \<open>\<open>strftime('%Y-%m')\<close>\<close>
  "strftime_ym t = pad4 (year t) @ ''-'' @ pad2 (month t)"

section \<open>The ledger\<close>

text \<open>
  A sale is a dictionary. Both source files give it the keys \<open>id\<close>, \<open>produto\<close>,
  \<open>vendedor\<close>, \<open>quantidade\<close>, \<open>valor_unitario\<close> and \<open>valor_total\<close>;
  \<open>AnaliseVendasEdu\<close> adds the key \<open>data\<close> (the date as it was typed), and
  \<open>RelatorioFinalEdu\<close> adds \<open>data_str\<close> and \<open>data_obj\<close> (the parsed date).
  The field \<open>id\<close> is named \<open>id_venda\<close> here.
\<close>

record venda_base =
  id_venda :: int
  produto :: string
  vendedor :: string
  quantidade :: int
  valor_unitario :: pyfloat
  valor_total :: pyfloat

record venda = venda_base +
  data :: string

record venda_sv = venda_base +
  data_str :: string
  data_obj :: datetime

text \<open>
  The state: the module-level \<open>vendas\<close> and \<open>contador_id\<close> of \<open>AnaliseVendasEdu\<close>,
  the attributes of the same names of the class \<open>SistemaVendas\<close> of \<open>RelatorioFinalEdu\<close>.
\<close>

record 'v sistema =
  vendas :: "'v list"
  contador_id :: int

definition inicial :: "'v sistema" where
  "inicial = \<lparr>vendas = [], contador_id = 1\<rparr>"

subsection \<open>Recording a sale\<close>

text \<open>
  The arguments have the types of the docstring: two strings, an \<open>int\<close>, a \<open>float\<close>
  and a string, so both \<open>isinstance\<close> tests hold. The result is the returned dictionary
  (\<open>None\<close> for a rejected sale) and the state after the call.
\<close>

definition registrar_venda ::
  "venda sistema \<Rightarrow> string \<Rightarrow> string \<Rightarrow> int \<Rightarrow> pyfloat \<Rightarrow> string \<Rightarrow> venda option \<times> venda sistema"
where
  "registrar_venda s p v q u d =
     (if p = [] \<or> v = [] \<or> d = [] then (None, s)
      else if q \<le> 0 then (None, s)
      else if u \<le> 0 then (None, s)
      else if length d \<noteq> 10 \<or> d ! 4 \<noteq> CHR ''-'' \<or> d ! 7 \<noteq> CHR ''-'' then (None, s)
      else
        let valor = int_mul_float q u;
            nova = \<lparr>id_venda = contador_id s, produto = strip p, vendedor = strip v,
                    quantidade = q, valor_unitario = u, valor_total = valor, data = d\<rparr>
        in (Some nova, s\<lparr>vendas := vendas s @ [nova], contador_id := contador_id s + 1\<rparr>))"

definition SistemaVendas_registrar_venda ::
  "venda_sv sistema \<Rightarrow> string \<Rightarrow> string \<Rightarrow> int \<Rightarrow> pyfloat \<Rightarrow> string
     \<Rightarrow> venda_sv option \<times> venda_sv sistema"
where
  "SistemaVendas_registrar_venda s p v q u d =
     (if p = [] \<or> v = [] \<or> d = [] then (None, s)
      else if q \<le> 0 then (None, s)
      else if u \<le> 0 then (None, s)
      else
        (case strptime d of
           None \<Rightarrow> (None, s)
         | Some obj \<Rightarrow>
             let valor = round2 (int_mul_float q u);
                 nova = \<lparr>id_venda = contador_id s, produto = strip p, vendedor = strip v,
                         quantidade = q, valor_unitario = u, valor_total = valor,
                         data_str = strftime_ymd obj, data_obj = obj\<rparr>
             in (Some nova, s\<lparr>vendas := vendas s @ [nova], contador_id := contador_id s + 1\<rparr>)))"

text \<open>A call is its five arguments; a run is a sequence of calls, each on the state the
  previous one left.\<close>

type_synonym chamada = "string \<times> string \<times> int \<times> pyfloat \<times> string"

definition registra :: "venda sistema \<Rightarrow> chamada \<Rightarrow> venda sistema" where
  "registra s c = (case c of (p, v, q, u, d) \<Rightarrow> snd (registrar_venda s p v q u d))"

definition SistemaVendas_registra :: "venda_sv sistema \<Rightarrow> chamada \<Rightarrow> venda_sv sistema" where
  "SistemaVendas_registra s c =
     (case c of (p, v, q, u, d) \<Rightarrow> snd (SistemaVendas_registrar_venda s p v q u d))"

definition executa :: "chamada list \<Rightarrow> venda sistema" where
  "executa cs = foldl registra inicial cs"

definition SistemaVendas_executa :: "chamada list \<Rightarrow> venda_sv sistema" where
  "SistemaVendas_executa cs = foldl SistemaVendas_registra inicial cs"

subsection \<open>Aggregations\<close>

text \<open>
  The functions of this subsection read only the keys that the two files share and have
  the same body in both, so each is modelled once, for any sale that extends
  \<open>venda_base\<close>.
\<close>

definition calcular_total_vendas :: "'a venda_base_scheme sistema \<Rightarrow> pyfloat" where
  "calcular_total_vendas s =
     (if vendas s = [] then 0 else py_sum (map valor_total (vendas s)))"

record stats_vendedor =
  total_vendas :: pyfloat
  quantidade_vendas :: int
  valor_medio :: pyfloat

definition soma_vendedor ::
  "(string \<times> pyfloat \<times> int) list \<Rightarrow> 'a venda_base_scheme \<Rightarrow> (string \<times> pyfloat \<times> int) list"
where
  \<comment> \<open>the body of the first loop of \<open>calcular_vendas_por_vendedor\<close>\<close>
  "soma_vendedor stats venda =
     upsert (vendedor venda) (\<lambda>(tot, qtd). (float_add tot (valor_total venda), qtd + 1))
       (0, 0) stats"

definition calcular_vendas_por_vendedor ::
  "'a venda_base_scheme sistema \<Rightarrow> (string \<times> stats_vendedor) list"
where
  "calcular_vendas_por_vendedor s =
     map (\<lambda>(nome, tot, qtd).
            (nome, \<lparr>total_vendas = tot, quantidade_vendas = qtd,
                    valor_medio = (if 0 < qtd then float_div_int tot qtd else 0)\<rparr>))
       (foldl soma_vendedor [] (vendas s))"

record stats_produto =
  total_vendido :: pyfloat
  quantidade_vendida :: int
  receita :: pyfloat

definition soma_produto ::
  "(string \<times> pyfloat \<times> int) list \<Rightarrow> 'a venda_base_scheme \<Rightarrow> (string \<times> pyfloat \<times> int) list"
where
  \<comment> \<open>the body of the first loop of \<open>calcular_vendas_por_produto\<close>\<close>
  "soma_produto stats venda =
     upsert (produto venda)
       (\<lambda>(tot, qtd). (float_add tot (valor_total venda), qtd + quantidade venda))
       (0, 0) stats"

definition calcular_vendas_por_produto ::
  "'a venda_base_scheme sistema \<Rightarrow> (string \<times> stats_produto) list"
where
  "calcular_vendas_por_produto s =
     map (\<lambda>(nome, tot, qtd).
            (nome, \<lparr>total_vendido = tot, quantidade_vendida = qtd, receita = tot\<rparr>))
       (foldl soma_produto [] (vendas s))"

text \<open>
  Sales by month. The two files differ in how the month of a sale is read:
  \<open>extrair_mes(venda['data'])\<close> cuts the typed string, \<open>extrair_mes(venda['data_obj'])\<close>
  formats the parsed date. \<open>sorted(stats.items())\<close> orders the pairs by key, the keys of
  a dictionary being distinct.
\<close>

definition extrair_mes :: "string \<Rightarrow> string" where
  "extrair_mes d = (if 7 \<le> length d then take 7 d else ''Data Inv'' @ [char_of (225 :: nat)] @ ''lida'')"

definition SistemaVendas_extrair_mes :: "datetime \<Rightarrow> string" where
  "SistemaVendas_extrair_mes obj = strftime_ym obj"

definition soma_mes ::
  "('a venda_base_scheme \<Rightarrow> string) \<Rightarrow> (string \<times> pyfloat) list \<Rightarrow> 'a venda_base_scheme
     \<Rightarrow> (string \<times> pyfloat) list"
where
  \<comment> \<open>the body of the loop of \<open>calcular_vendas_por_mes\<close>, for either way of reading
      the month\<close>
  "soma_mes mes stats venda =
     upsert (mes venda) (\<lambda>tot. float_add tot (valor_total venda)) 0 stats"

definition calcular_vendas_por_mes :: "venda sistema \<Rightarrow> (string \<times> pyfloat) list" where
  "calcular_vendas_por_mes s =
     sort_key fst (foldl (soma_mes (\<lambda>venda. extrair_mes (data venda))) [] (vendas s))"

definition SistemaVendas_calcular_vendas_por_mes ::
  "venda_sv sistema \<Rightarrow> (string \<times> pyfloat) list"
where
  "SistemaVendas_calcular_vendas_por_mes s =
     sort_key fst
       (foldl (soma_mes (\<lambda>venda. SistemaVendas_extrair_mes (data_obj venda))) [] (vendas s))"

subsection \<open>Rankings and the best month\<close>

definition ranking_vendedores ::
  "'a venda_base_scheme sistema \<Rightarrow> int \<Rightarrow> (string \<times> pyfloat) list"
where
  "ranking_vendedores s limite =
     map (\<lambda>(nome, dados). (nome, total_vendas dados))
       (slice_to (sorted_reverse (\<lambda>item. total_vendas (snd item))
                    (calcular_vendas_por_vendedor s)) limite)"

definition ranking_produtos ::
  "'a venda_base_scheme sistema \<Rightarrow> int \<Rightarrow> (string \<times> int) list"
where
  "ranking_produtos s limite =
     map (\<lambda>(nome, dados). (nome, quantidade_vendida dados))
       (slice_to (sorted_reverse (\<lambda>item. quantidade_vendida (snd item))
                    (calcular_vendas_por_produto s)) limite)"

definition melhor_de :: "(string \<times> pyfloat) list \<Rightarrow> string option \<times> pyfloat" where
  \<comment> \<open>the body of \<open>melhor_mes\<close> after the call of \<open>calcular_vendas_por_mes\<close>\<close>
  "melhor_de vendas_mes =
     (case max_key snd vendas_mes of
        None \<Rightarrow> (None, 0)
      | Some (mes, tot) \<Rightarrow> (Some mes, tot))"

definition melhor_mes :: "venda sistema \<Rightarrow> string option \<times> pyfloat" where
  "melhor_mes s = melhor_de (calcular_vendas_por_mes s)"

definition SistemaVendas_melhor_mes :: "venda_sv sistema \<Rightarrow> string option \<times> pyfloat" where
  "SistemaVendas_melhor_mes s = melhor_de (SistemaVendas_calcular_vendas_por_mes s)"

subsection \<open>The report of one seller\<close>

record 'v relatorio_vendedor =
  nome :: string
  total_vendas_rel :: pyfloat
  quantidade_transacoes :: int
  valor_medio_transacao :: pyfloat
  produtos_vendidos :: "(string \<times> int) list"
  lista_vendas :: "'v list"

definition vendas_do_vendedor :: "'a venda_base_scheme sistema \<Rightarrow> string \<Rightarrow> 'a venda_base_scheme list"
where
  \<comment> \<open>the list comprehension: \<open>nome_vendedor.lower() in v['vendedor'].lower()\<close>\<close>
  "vendas_do_vendedor s nome_vendedor =
     filter (\<lambda>v. sublist (lower nome_vendedor) (lower (vendedor v))) (vendas s)"

definition gerar_relatorio_vendedor ::
  "'a venda_base_scheme sistema \<Rightarrow> string \<Rightarrow> 'a venda_base_scheme relatorio_vendedor option"
where
  "gerar_relatorio_vendedor s nome_vendedor =
     (case vendas_do_vendedor s nome_vendedor of
        [] \<Rightarrow> None
      | primeira # resto \<Rightarrow>
          let achadas = primeira # resto;
              tot = py_sum (map valor_total achadas);
              qtd = int (length achadas)
          in Some \<lparr>nome = vendedor primeira,
                   total_vendas_rel = tot,
                   quantidade_transacoes = qtd,
                   valor_medio_transacao = (if 0 < qtd then float_div_int tot qtd else 0),
                   produtos_vendidos =
                     foldl (\<lambda>acc v. upsert (produto v) (\<lambda>n. n + quantidade v) 0 acc) [] achadas,
                   lista_vendas = achadas\<rparr>)"

subsection \<open>Predicates used in the statements\<close>

definition ids_em_ordem :: "'a venda_base_scheme sistema \<Rightarrow> bool" where
  \<comment> \<open>the ids of the stored sales are \<open>1, 2, 3, \<dots>\<close> in order, and the counter is the
      next one\<close>
  "ids_em_ordem s \<longleftrightarrow>
     contador_id s = int (length (vendas s)) + 1 \<and>
     map id_venda (vendas s) = [1 .. int (length (vendas s))]"

definition data_do_calendario :: "datetime \<Rightarrow> bool" where
  "data_do_calendario t \<longleftrightarrow>
     1 \<le> year t \<and> 1 \<le> month t \<and> month t \<le> 12 \<and>
     1 \<le> day t \<and> day t \<le> days_in_month (year t) (month t)"

definition somas_exatas :: "pyfloat list \<Rightarrow> bool" where
  \<comment> \<open>the sum of every selection of the amounts (in their order) is a float: adding
      such amounts, in any grouping, rounds nothing\<close>
  "somas_exatas ts \<longleftrightarrow> list_all (\<lambda>ys. fl (sum_list ys) = sum_list ys) (subseqs ts)"

definition soma_totais_vendedor :: "'a venda_base_scheme sistema \<Rightarrow> pyfloat" where
  \<comment> \<open>\<open>sum(d['total_vendas'] for d in calcular_vendas_por_vendedor().values())\<close>\<close>
  "soma_totais_vendedor s =
     py_sum (map (\<lambda>(nome, dados). total_vendas dados) (calcular_vendas_por_vendedor s))"

definition soma_receitas_produto :: "'a venda_base_scheme sistema \<Rightarrow> pyfloat" where
  \<comment> \<open>\<open>sum(d['receita'] for d in calcular_vendas_por_produto().values())\<close>\<close>
  "soma_receitas_produto s =
     py_sum (map (\<lambda>(nome, dados). receita dados) (calcular_vendas_por_produto s))"

section \<open>Properties of recording a sale\<close>

lemma registrar_venda_cases:
  "registrar_venda s p v q u d = (None, s) \<or>
   (\<exists>r. registrar_venda s p v q u d =
      (Some r, s\<lparr>vendas := vendas s @ [r], contador_id := contador_id s + 1\<rparr>) \<and>
      id_venda r = contador_id s \<and> produto r = strip p \<and> vendedor r = strip v \<and>
      quantidade r = q \<and> valor_unitario r = u \<and> valor_total r = int_mul_float q u \<and>
      data r = d)"
  by (simp add: registrar_venda_def Let_def)

lemma SistemaVendas_registrar_venda_cases:
  "SistemaVendas_registrar_venda s p v q u d = (None, s) \<or>
   (\<exists>r. SistemaVendas_registrar_venda s p v q u d =
      (Some r, s\<lparr>vendas := vendas s @ [r], contador_id := contador_id s + 1\<rparr>) \<and>
      id_venda r = contador_id s \<and> produto r = strip p \<and> vendedor r = strip v \<and>
      quantidade r = q \<and> valor_unitario r = u \<and>
      valor_total r = round2 (int_mul_float q u) \<and> strptime d = Some (data_obj r) \<and>
      data_str r = strftime_ymd (data_obj r))"
  by (simp add: SistemaVendas_registrar_venda_def Let_def split: option.split)

lemma registrar_venda_None:
  "fst (registrar_venda s p v q u d) = None \<longleftrightarrow>
     p = [] \<or> v = [] \<or> d = [] \<or> q \<le> 0 \<or> u \<le> 0 \<or>
     length d \<noteq> 10 \<or> d ! 4 \<noteq> CHR ''-'' \<or> d ! 7 \<noteq> CHR ''-''"
  by (auto simp add: registrar_venda_def Let_def)

lemma SistemaVendas_registrar_venda_None:
  "fst (SistemaVendas_registrar_venda s p v q u d) = None \<longleftrightarrow>
     p = [] \<or> v = [] \<or> d = [] \<or> q \<le> 0 \<or> u \<le> 0 \<or> strptime d = None"
  by (auto simp add: SistemaVendas_registrar_venda_def Let_def split: option.split)

lemma registrar_venda_None_estado:
  "fst (registrar_venda s p v q u d) = None \<Longrightarrow> registrar_venda s p v q u d = (None, s)"
  using registrar_venda_cases [of s p v q u d] by auto

lemma SistemaVendas_registrar_venda_None_estado:
  "fst (SistemaVendas_registrar_venda s p v q u d) = None
     \<Longrightarrow> SistemaVendas_registrar_venda s p v q u d = (None, s)"
  using SistemaVendas_registrar_venda_cases [of s p v q u d] by auto

lemma make_datetime_calendario: "make_datetime y m d = Some t \<Longrightarrow> data_do_calendario t"
  by (auto simp add: make_datetime_def data_do_calendario_def split: if_splits)

lemma strptime_calendario:
  assumes "strptime d = Some t"
  shows "data_do_calendario t"
proof -
  from assms obtain y m dd where "make_datetime y m dd = Some t"
    by (cases d rule: strptime.cases) (auto split: if_splits option.splits)
  then show ?thesis by (rule make_datetime_calendario)
qed

text \<open>
  C1, as amended. When a sale is accepted, the record returned is the record appended to
  the ledger, and its \<open>valor_total\<close> is \<open>round(quantidade * valor_unitario, 2)\<close> in
  \<open>SistemaVendas.registrar_venda\<close> (\<open>RelatorioFinalEdu\<close>), and the product
  \<open>quantidade * valor_unitario\<close> itself, not rounded, in \<open>registrar_venda\<close>
  (\<open>AnaliseVendasEdu\<close>).
\<close>

theorem registrar_venda_valor_total:
  "(fst (SistemaVendas_registrar_venda s p v q u d) = Some r \<longrightarrow>
      valor_total r = round2 (int_mul_float q u) \<and>
      vendas (snd (SistemaVendas_registrar_venda s p v q u d)) = vendas s @ [r]) \<and>
   (fst (registrar_venda s' p v q u d) = Some r' \<longrightarrow>
      valor_total r' = int_mul_float q u \<and>
      vendas (snd (registrar_venda s' p v q u d)) = vendas s' @ [r'])"
  using SistemaVendas_registrar_venda_cases [of s p v q u d]
    registrar_venda_cases [of s' p v q u d]
  by auto

theorem registrar_venda_valor_total_witness:
  "fst (SistemaVendas_registrar_venda inicial ''Caneta'' ''Ana'' 3 (fl (1 / 10)) ''2024-01-15'')
     = Some \<lparr>id_venda = 1, produto = ''Caneta'', vendedor = ''Ana'', quantidade = 3,
              valor_unitario = fl (1 / 10), valor_total = fl (3 / 10),
              data_str = ''2024-01-15'', data_obj = \<lparr>year = 2024, month = 1, day = 15\<rparr>\<rparr> \<and>
   fl (3 / 10) = round2 (int_mul_float 3 (fl (1 / 10))) \<and>
   fst (registrar_venda inicial ''Caneta'' ''Ana'' 3 (fl (1 / 10)) ''2024-01-15'')
     = Some \<lparr>id_venda = 1, produto = ''Caneta'', vendedor = ''Ana'', quantidade = 3,
              valor_unitario = fl (1 / 10), valor_total = int_mul_float 3 (fl (1 / 10)),
              data = ''2024-01-15''\<rparr>"
proof -
  have a: "fst (SistemaVendas_registrar_venda inicial ''Caneta'' ''Ana'' 3 (fl (1 / 10))
                  ''2024-01-15'')
     = Some \<lparr>id_venda = 1, produto = ''Caneta'', vendedor = ''Ana'', quantidade = 3,
              valor_unitario = fl (1 / 10), valor_total = fl (3 / 10),
              data_str = ''2024-01-15'', data_obj = \<lparr>year = 2024, month = 1, day = 15\<rparr>\<rparr>"
    by code_simp
  have b: "fst (registrar_venda inicial ''Caneta'' ''Ana'' 3 (fl (1 / 10)) ''2024-01-15'')
     = Some \<lparr>id_venda = 1, produto = ''Caneta'', vendedor = ''Ana'', quantidade = 3,
              valor_unitario = fl (1 / 10), valor_total = int_mul_float 3 (fl (1 / 10)),
              data = ''2024-01-15''\<rparr>"
    by code_simp
  from a b registrar_venda_valor_total
    [where s = inicial and s' = inicial and p = "''Caneta''" and v = "''Ana''" and q = 3
       and u = "fl (1 / 10)" and d = "''2024-01-15''"
       and r = "\<lparr>id_venda = 1, produto = ''Caneta'', vendedor = ''Ana'', quantidade = 3,
              valor_unitario = fl (1 / 10), valor_total = fl (3 / 10),
              data_str = ''2024-01-15'', data_obj = \<lparr>year = 2024, month = 1, day = 15\<rparr>\<rparr>"
       and r' = "\<lparr>id_venda = 1, produto = ''Caneta'', vendedor = ''Ana'', quantidade = 3,
              valor_unitario = fl (1 / 10), valor_total = int_mul_float 3 (fl (1 / 10)),
              data = ''2024-01-15''\<rparr>"]
  show ?thesis by simp
qed

text \<open>
  C1, as stated, fails on \<open>AnaliseVendasEdu\<close>: three units at the price \<open>0.1\<close> are
  stored with the total \<open>3 * 0.1 = 0.30000000000000004\<close>, which is not
  \<open>round(3 * 0.1, 2) = 0.3\<close>.
\<close>

theorem registrar_venda_valor_total_counterexample:
  "map_option valor_total
     (fst (registrar_venda inicial ''Caneta'' ''Ana'' 3 (fl (1 / 10)) ''2024-01-15''))
   \<noteq> Some (round2 (int_mul_float 3 (fl (1 / 10))))"
  by code_simp

text \<open>
  C2, as amended. \<open>registrar_venda\<close> (\<open>AnaliseVendasEdu\<close>) returns \<open>None\<close> for every
  date string that is not ten characters long with \<open>-\<close> at the indices 4 and 7; it
  does not look at the calendar. \<open>SistemaVendas.registrar_venda\<close>
  (\<open>RelatorioFinalEdu\<close>) returns \<open>None\<close> for every date string that
  \<open>strptime(data, '%Y-%m-%d')\<close> does not parse; what it parses is a date of the calendar,
  and \<open>2024-13-01\<close> is not parsed.
\<close>

theorem registrar_venda_data_invalida:
  "(length d \<noteq> 10 \<or> d ! 4 \<noteq> CHR ''-'' \<or> d ! 7 \<noteq> CHR ''-''
      \<longrightarrow> registrar_venda s p v q u d = (None, s)) \<and>
   (strptime d = None \<longrightarrow> SistemaVendas_registrar_venda s' p v q u d = (None, s')) \<and>
   (strptime d = Some t \<longrightarrow> data_do_calendario t) \<and>
   strptime ''2024-13-01'' = None"
proof (intro conjI impI)
  assume "length d \<noteq> 10 \<or> d ! 4 \<noteq> CHR ''-'' \<or> d ! 7 \<noteq> CHR ''-''"
  then have "fst (registrar_venda s p v q u d) = None"
    by (simp add: registrar_venda_None)
  then show "registrar_venda s p v q u d = (None, s)"
    by (rule registrar_venda_None_estado)
next
  assume "strptime d = None"
  then have "fst (SistemaVendas_registrar_venda s' p v q u d) = None"
    by (simp add: SistemaVendas_registrar_venda_None)
  then show "SistemaVendas_registrar_venda s' p v q u d = (None, s')"
    by (rule SistemaVendas_registrar_venda_None_estado)
next
  assume "strptime d = Some t"
  then show "data_do_calendario t" by (rule strptime_calendario)
next
  show "strptime ''2024-13-01'' = None" by simp
qed

theorem registrar_venda_data_invalida_witness:
  "registrar_venda inicial ''Notebook'' ''Ana'' 2 1000 ''15/01/2024'' = (None, inicial) \<and>
   SistemaVendas_registrar_venda inicial ''Notebook'' ''Ana'' 2 1000 ''2024-13-01''
     = (None, inicial) \<and>
   data_do_calendario \<lparr>year = 2024, month = 2, day = 29\<rparr>"
proof -
  have a: "strptime ''2024-02-29'' = Some \<lparr>year = 2024, month = 2, day = 29\<rparr>"
    by code_simp
  have b: "strptime ''2024-13-01'' = None"
    by simp
  from registrar_venda_data_invalida [of "''15/01/2024''" inicial "''Notebook''" "''Ana''" 2 1000]
  have c: "registrar_venda inicial ''Notebook'' ''Ana'' 2 1000 ''15/01/2024'' = (None, inicial)"
    by simp
  from b registrar_venda_data_invalida [of "''2024-13-01''" _ "''Notebook''" "''Ana''" 2 1000
      inicial]
  have d: "SistemaVendas_registrar_venda inicial ''Notebook'' ''Ana'' 2 1000 ''2024-13-01''
     = (None, inicial)"
    by simp
  from a registrar_venda_data_invalida [of "''2024-02-29''" _ _ _ _ _ _
      "\<lparr>year = 2024, month = 2, day = 29\<rparr>"]
  have e: "data_do_calendario \<lparr>year = 2024, month = 2, day = 29\<rparr>"
    by simp
  from c d e show ?thesis by simp
qed

text \<open>
  C2, as stated, fails on \<open>AnaliseVendasEdu\<close>: the date \<open>2024-13-01\<close> has the shape
  that \<open>registrar_venda\<close> tests, and the sale is recorded.
\<close>

theorem registrar_venda_data_invalida_counterexample:
  "fst (registrar_venda inicial ''Notebook'' ''Ana'' 2 1000 ''2024-13-01'') \<noteq> None"
  by (simp add: registrar_venda_None)

text \<open>
  C3. Both files test the text fields before trimming them (\<open>not all([produto, vendedor,
  data])\<close> is a test of the raw strings), so a product or a seller made of spaces passes
  the test and is stored as the empty string.
\<close>

theorem registrar_venda_produto_em_branco:
  "map_option produto
     (fst (registrar_venda inicial ''   '' ''Ana'' 1 10 ''2024-01-15'')) = Some [] \<and>
   map_option vendedor
     (fst (registrar_venda inicial ''Mouse'' '' '' 1 10 ''2024-01-15'')) = Some [] \<and>
   map_option produto
     (fst (SistemaVendas_registrar_venda inicial ''   '' ''Ana'' 1 10 ''2024-01-15'')) = Some [] \<and>
   map_option vendedor
     (fst (SistemaVendas_registrar_venda inicial ''Mouse'' '' '' 1 10 ''2024-01-15'')) = Some []"
  by code_simp

theorem registrar_venda_produto_em_branco_witness:
  "fst (registrar_venda inicial ''   '' ''Ana'' 1 10 ''2024-01-15'') \<noteq> None \<and>
   fst (SistemaVendas_registrar_venda inicial ''   '' ''Ana'' 1 10 ''2024-01-15'') \<noteq> None"
  using registrar_venda_produto_em_branco by auto

text \<open>What does hold of the stored texts: they are the arguments, trimmed.\<close>

lemma registrar_venda_textos:
  "fst (registrar_venda s p v q u d) = Some r \<Longrightarrow> produto r = strip p \<and> vendedor r = strip v"
  using registrar_venda_cases [of s p v q u d] by auto

lemma SistemaVendas_registrar_venda_textos:
  "fst (SistemaVendas_registrar_venda s p v q u d) = Some r
     \<Longrightarrow> produto r = strip p \<and> vendedor r = strip v"
  using SistemaVendas_registrar_venda_cases [of s p v q u d] by auto

lemma strip_sem_bordas:
  "strip s = [] \<or> (\<not> isspace (hd (strip s)) \<and> \<not> isspace (last (strip s)))"
proof (cases "strip s = []")
  case True
  then show ?thesis by simp
next
  case False
  define a where "a = dropWhile isspace s"
  define b where "b = dropWhile isspace (rev a)"
  have st: "strip s = rev b" by (simp add: strip_def a_def b_def)
  with False have b: "b \<noteq> []" by simp
  then have "\<not> isspace (hd b)" unfolding b_def by (rule hd_dropWhile)
  with b st have l: "\<not> isspace (last (strip s))" by (simp add: last_rev)
  have a: "a \<noteq> []"
  proof
    assume "a = []"
    then have "b = []" by (simp add: b_def)
    with b show False by simp
  qed
  then have ha: "\<not> isspace (hd a)" unfolding a_def by (rule hd_dropWhile)
  obtain c where c: "rev a = c @ b"
    unfolding b_def by (metis takeWhile_dropWhile_id)
  then have "a = rev b @ rev c" by (metis rev_append rev_rev_ident)
  with b st have "hd (strip s) = hd a" by simp
  with ha l show ?thesis by simp
qed

text \<open>
  C6. A call returns \<open>None\<close> exactly when one of the tests of the function fails, and then
  the state after the call is the state before it: the same list of sales and the same
  \<open>contador_id\<close>.
\<close>

theorem registrar_venda_rejeitada:
  "(fst (registrar_venda s p v q u d) = None \<longleftrightarrow>
      p = [] \<or> v = [] \<or> d = [] \<or> q \<le> 0 \<or> u \<le> 0 \<or>
      length d \<noteq> 10 \<or> d ! 4 \<noteq> CHR ''-'' \<or> d ! 7 \<noteq> CHR ''-'') \<and>
   (fst (registrar_venda s p v q u d) = None \<longrightarrow>
      snd (registrar_venda s p v q u d) = s) \<and>
   (fst (SistemaVendas_registrar_venda s' p v q u d) = None \<longleftrightarrow>
      p = [] \<or> v = [] \<or> d = [] \<or> q \<le> 0 \<or> u \<le> 0 \<or> strptime d = None) \<and>
   (fst (SistemaVendas_registrar_venda s' p v q u d) = None \<longrightarrow>
      snd (SistemaVendas_registrar_venda s' p v q u d) = s')"
  using registrar_venda_None [of s p v q u d]
    registrar_venda_None_estado [of s p v q u d]
    SistemaVendas_registrar_venda_None [of s' p v q u d]
    SistemaVendas_registrar_venda_None_estado [of s' p v q u d]
  by simp

theorem registrar_venda_rejeitada_witness:
  "fst (registrar_venda (executa [(''Mouse'', ''Ana'', 1, 50, ''2024-01-20'')])
          ''Notebook'' ''Ana'' 0 1000 ''2024-01-15'') = None \<and>
   snd (registrar_venda (executa [(''Mouse'', ''Ana'', 1, 50, ''2024-01-20'')])
          ''Notebook'' ''Ana'' 0 1000 ''2024-01-15'')
     = executa [(''Mouse'', ''Ana'', 1, 50, ''2024-01-20'')] \<and>
   fst (SistemaVendas_registrar_venda
          (SistemaVendas_executa [(''Mouse'', ''Ana'', 1, 50, ''2024-01-20'')])
          ''Notebook'' ''Ana'' 0 1000 ''2024-01-15'') = None \<and>
   snd (SistemaVendas_registrar_venda
          (SistemaVendas_executa [(''Mouse'', ''Ana'', 1, 50, ''2024-01-20'')])
          ''Notebook'' ''Ana'' 0 1000 ''2024-01-15'')
     = SistemaVendas_executa [(''Mouse'', ''Ana'', 1, 50, ''2024-01-20'')]"
  using registrar_venda_rejeitada
    [of "executa [(''Mouse'', ''Ana'', 1, 50, ''2024-01-20'')]" "''Notebook''" "''Ana''" 0 1000
        "''2024-01-15''"
        "SistemaVendas_executa [(''Mouse'', ''Ana'', 1, 50, ''2024-01-20'')]"]
  by simp

section \<open>The ids of the ledger\<close>

lemma upto_snoc: "[1 .. 1 + int n] = [1 .. int n] @ [int n + 1]"
  by (simp add: upto_rec2 add.commute)

lemma ids_inicial: "ids_em_ordem inicial"
  by (simp add: ids_em_ordem_def inicial_def)

lemma ids_append:
  "ids_em_ordem s \<Longrightarrow> id_venda r = contador_id s
     \<Longrightarrow> ids_em_ordem (s\<lparr>vendas := vendas s @ [r], contador_id := contador_id s + 1\<rparr>)"
  by (simp add: ids_em_ordem_def upto_snoc)

lemma ids_registra: "ids_em_ordem s \<Longrightarrow> ids_em_ordem (registra s c)"
  using registrar_venda_cases [of s "fst c" "fst (snd c)" "fst (snd (snd c))"
      "fst (snd (snd (snd c)))" "snd (snd (snd (snd c)))"]
  by (auto simp add: registra_def case_prod_beta ids_append)

lemma ids_SistemaVendas_registra: "ids_em_ordem s \<Longrightarrow> ids_em_ordem (SistemaVendas_registra s c)"
  using SistemaVendas_registrar_venda_cases [of s "fst c" "fst (snd c)" "fst (snd (snd c))"
      "fst (snd (snd (snd c)))" "snd (snd (snd (snd c)))"]
  by (auto simp add: SistemaVendas_registra_def case_prod_beta ids_append)

lemma ids_foldl: "ids_em_ordem s \<Longrightarrow> ids_em_ordem (foldl registra s cs)"
  by (induction cs arbitrary: s) (simp_all add: ids_registra)

lemma ids_SistemaVendas_foldl:
  "ids_em_ordem s \<Longrightarrow> ids_em_ordem (foldl SistemaVendas_registra s cs)"
  by (induction cs arbitrary: s) (simp_all add: ids_SistemaVendas_registra)

text \<open>
  C5. After any sequence of calls on a fresh ledger, accepted or rejected, the ids of the
  stored sales are \<open>1, 2, \<dots>, n\<close> in the order of the list, \<open>n\<close> being the number of
  stored sales, and the counter is \<open>n + 1\<close>; so the ids are distinct.
\<close>

theorem ids_sequenciais:
  "map id_venda (vendas (executa cs)) = [1 .. int (length (vendas (executa cs)))] \<and>
   contador_id (executa cs) = int (length (vendas (executa cs))) + 1 \<and>
   distinct (map id_venda (vendas (executa cs))) \<and>
   map id_venda (vendas (SistemaVendas_executa cs))
     = [1 .. int (length (vendas (SistemaVendas_executa cs)))] \<and>
   contador_id (SistemaVendas_executa cs)
     = int (length (vendas (SistemaVendas_executa cs))) + 1 \<and>
   distinct (map id_venda (vendas (SistemaVendas_executa cs)))"
proof -
  have a: "ids_em_ordem (executa cs)"
    unfolding executa_def using ids_inicial by (rule ids_foldl)
  have b: "ids_em_ordem (SistemaVendas_executa cs)"
    unfolding SistemaVendas_executa_def using ids_inicial by (rule ids_SistemaVendas_foldl)
  from a have "distinct (map id_venda (vendas (executa cs)))"
    by (simp add: ids_em_ordem_def)
  moreover from b have "distinct (map id_venda (vendas (SistemaVendas_executa cs)))"
    by (simp add: ids_em_ordem_def)
  ultimately show ?thesis using a b by (simp add: ids_em_ordem_def)
qed

theorem ids_sequenciais_witness:
  "map id_venda (vendas (executa
      [(''Notebook'', ''Ana'', 2, 1000, ''2024-01-15''),
       (''Mouse'', ''Ana'', 0, 50, ''2024-01-20''),
       (''Teclado'', ''Caio'', 3, 250, ''2024-02-01'')])) = [1, 2] \<and>
   contador_id (executa
      [(''Notebook'', ''Ana'', 2, 1000, ''2024-01-15''),
       (''Mouse'', ''Ana'', 0, 50, ''2024-01-20''),
       (''Teclado'', ''Caio'', 3, 250, ''2024-02-01'')]) = 3 \<and>
   map id_venda (vendas (SistemaVendas_executa
      [(''Notebook'', ''Ana'', 2, 1000, ''2024-01-15''),
       (''Mouse'', ''Ana'', 0, 50, ''2024-01-20''),
       (''Teclado'', ''Caio'', 3, 250, ''2024-02-01'')])) = [1, 2] \<and>
   contador_id (SistemaVendas_executa
      [(''Notebook'', ''Ana'', 2, 1000, ''2024-01-15''),
       (''Mouse'', ''Ana'', 0, 50, ''2024-01-20''),
       (''Teclado'', ''Caio'', 3, 250, ''2024-02-01'')]) = 3"
proof -
  have a: "length (vendas (executa
      [(''Notebook'', ''Ana'', 2, 1000, ''2024-01-15''),
       (''Mouse'', ''Ana'', 0, 50, ''2024-01-20''),
       (''Teclado'', ''Caio'', 3, 250, ''2024-02-01'')])) = 2"
    by code_simp
  have b: "length (vendas (SistemaVendas_executa
      [(''Notebook'', ''Ana'', 2, 1000, ''2024-01-15''),
       (''Mouse'', ''Ana'', 0, 50, ''2024-01-20''),
       (''Teclado'', ''Caio'', 3, 250, ''2024-02-01'')])) = 2"
    by code_simp
  from a b ids_sequenciais
    [of "[(''Notebook'', ''Ana'', 2, 1000, ''2024-01-15''),
          (''Mouse'', ''Ana'', 0, 50, ''2024-01-20''),
          (''Teclado'', ''Caio'', 3, 250, ''2024-02-01'')]"]
  show ?thesis by (simp add: upto_rec1)
qed

section \<open>The report of one seller\<close>

lemma gerar_relatorio_vendedor_None:
  "gerar_relatorio_vendedor s n = None \<longleftrightarrow> vendas_do_vendedor s n = []"
  by (simp add: gerar_relatorio_vendedor_def Let_def split: list.split)

lemma gerar_relatorio_vendedor_Some:
  assumes "gerar_relatorio_vendedor s n = Some r"
  shows "lista_vendas r = vendas_do_vendedor s n \<and>
         vendas_do_vendedor s n \<noteq> [] \<and>
         nome r = vendedor (hd (vendas_do_vendedor s n)) \<and>
         total_vendas_rel r = py_sum (map valor_total (vendas_do_vendedor s n)) \<and>
         quantidade_transacoes r = int (length (vendas_do_vendedor s n))"
proof (cases "vendas_do_vendedor s n")
  case Nil
  with assms show ?thesis by (simp add: gerar_relatorio_vendedor_def)
next
  case (Cons a as)
  with assms show ?thesis by (auto simp add: gerar_relatorio_vendedor_def Let_def)
qed

text \<open>
  C9. The sales of the report are exactly the sales of the ledger, in their order, whose
  stored seller, in lower case, contains the query, in lower case, as a substring; the
  result is \<open>None\<close> exactly when there is none; otherwise the name of the report is the
  seller of the first of them, as stored.
\<close>

theorem gerar_relatorio_vendedor_filtro:
  "(gerar_relatorio_vendedor s n = None \<longleftrightarrow>
      \<not> (\<exists>v \<in> set (vendas s). \<exists>pre suf. lower (vendedor v) = pre @ lower n @ suf)) \<and>
   (gerar_relatorio_vendedor s n = Some r \<longrightarrow>
      lista_vendas r =
        filter (\<lambda>v. \<exists>pre suf. lower (vendedor v) = pre @ lower n @ suf) (vendas s) \<and>
      lista_vendas r \<noteq> [] \<and>
      nome r = vendedor (hd (lista_vendas r)))"
proof -
  have f: "vendas_do_vendedor s n =
      filter (\<lambda>v. \<exists>pre suf. lower (vendedor v) = pre @ lower n @ suf) (vendas s)"
    by (simp add: vendas_do_vendedor_def sublist_def)
  have "gerar_relatorio_vendedor s n = None \<longleftrightarrow>
      \<not> (\<exists>v \<in> set (vendas s). \<exists>pre suf. lower (vendedor v) = pre @ lower n @ suf)"
    unfolding gerar_relatorio_vendedor_None f by (simp add: filter_empty_conv)
  moreover have "gerar_relatorio_vendedor s n = Some r \<longrightarrow>
      lista_vendas r =
        filter (\<lambda>v. \<exists>pre suf. lower (vendedor v) = pre @ lower n @ suf) (vendas s) \<and>
      lista_vendas r \<noteq> [] \<and>
      nome r = vendedor (hd (lista_vendas r))"
    using gerar_relatorio_vendedor_Some [of s n r] f by auto
  ultimately show ?thesis by blast
qed

theorem gerar_relatorio_vendedor_filtro_witness:
  "gerar_relatorio_vendedor
     (executa [(''Mouse Logitech'', ''Ana Pereira'', 10, 85, ''2024-02-12''),
               (''Monitor LG'', ''Carlos Andrade'', 2, 1200, ''2024-01-20'')]) ''ana''
   = Some \<lparr>nome = ''Ana Pereira'', total_vendas_rel = 850, quantidade_transacoes = 1,
            valor_medio_transacao = 850, produtos_vendidos = [(''Mouse Logitech'', 10)],
            lista_vendas =
              [\<lparr>id_venda = 1, produto = ''Mouse Logitech'', vendedor = ''Ana Pereira'',
                 quantidade = 10, valor_unitario = 85, valor_total = 850,
                 data = ''2024-02-12''\<rparr>]\<rparr> \<and>
   [\<lparr>id_venda = 1, produto = ''Mouse Logitech'', vendedor = ''Ana Pereira'',
      quantidade = 10, valor_unitario = 85, valor_total = 850, data = ''2024-02-12''\<rparr>]
   = filter (\<lambda>v. \<exists>pre suf. lower (vendedor v) = pre @ lower ''ana'' @ suf)
       (vendas (executa [(''Mouse Logitech'', ''Ana Pereira'', 10, 85, ''2024-02-12''),
                         (''Monitor LG'', ''Carlos Andrade'', 2, 1200, ''2024-01-20'')])) \<and>
   gerar_relatorio_vendedor
     (executa [(''Mouse Logitech'', ''Ana Pereira'', 10, 85, ''2024-02-12''),
               (''Monitor LG'', ''Carlos Andrade'', 2, 1200, ''2024-01-20'')]) ''bia''
   = None"
proof -
  have a: "gerar_relatorio_vendedor
     (executa [(''Mouse Logitech'', ''Ana Pereira'', 10, 85, ''2024-02-12''),
               (''Monitor LG'', ''Carlos Andrade'', 2, 1200, ''2024-01-20'')]) ''ana''
   = Some \<lparr>nome = ''Ana Pereira'', total_vendas_rel = 850, quantidade_transacoes = 1,
            valor_medio_transacao = 850, produtos_vendidos = [(''Mouse Logitech'', 10)],
            lista_vendas =
              [\<lparr>id_venda = 1, produto = ''Mouse Logitech'', vendedor = ''Ana Pereira'',
                 quantidade = 10, valor_unitario = 85, valor_total = 850,
                 data = ''2024-02-12''\<rparr>]\<rparr>"
    by code_simp
  have b: "gerar_relatorio_vendedor
     (executa [(''Mouse Logitech'', ''Ana Pereira'', 10, 85, ''2024-02-12''),
               (''Monitor LG'', ''Carlos Andrade'', 2, 1200, ''2024-01-20'')]) ''bia''
   = None"
    by code_simp
  from a b gerar_relatorio_vendedor_filtro
    [of "executa [(''Mouse Logitech'', ''Ana Pereira'', 10, 85, ''2024-02-12''),
                  (''Monitor LG'', ''Carlos Andrade'', 2, 1200, ''2024-01-20'')]" "''ana''"
        "\<lparr>nome = ''Ana Pereira'', total_vendas_rel = 850, quantidade_transacoes = 1,
            valor_medio_transacao = 850, produtos_vendidos = [(''Mouse Logitech'', 10)],
            lista_vendas =
              [\<lparr>id_venda = 1, produto = ''Mouse Logitech'', vendedor = ''Ana Pereira'',
                 quantidade = 10, valor_unitario = 85, valor_total = 850,
                 data = ''2024-02-12''\<rparr>]\<rparr>"]
  show ?thesis by simp
qed

text \<open>
  C10. On a ledger that is not empty, the report for the empty query is never \<open>None\<close>:
  it lists every sale of the ledger, its total is \<open>calcular_total_vendas()\<close>, its number
  of sales is the size of the ledger, and its name is the seller of the first sale of the
  ledger.
\<close>

theorem gerar_relatorio_vendedor_nome_vazio:
  "vendas s \<noteq> [] \<Longrightarrow>
     \<exists>r. gerar_relatorio_vendedor s [] = Some r \<and>
         lista_vendas r = vendas s \<and>
         total_vendas_rel r = calcular_total_vendas s \<and>
         quantidade_transacoes r = int (length (vendas s)) \<and>
         nome r = vendedor (hd (vendas s))"
proof -
  assume ne: "vendas s \<noteq> []"
  have f: "vendas_do_vendedor s [] = vendas s"
    by (simp add: vendas_do_vendedor_def lower_def)
  with ne have "gerar_relatorio_vendedor s [] \<noteq> None"
    by (simp add: gerar_relatorio_vendedor_None)
  then obtain r where r: "gerar_relatorio_vendedor s [] = Some r" by blast
  from gerar_relatorio_vendedor_Some [OF r] f ne
  have "lista_vendas r = vendas s \<and>
         total_vendas_rel r = calcular_total_vendas s \<and>
         quantidade_transacoes r = int (length (vendas s)) \<and>
         nome r = vendedor (hd (vendas s))"
    by (simp add: calcular_total_vendas_def)
  with r show ?thesis by blast
qed

theorem gerar_relatorio_vendedor_nome_vazio_witness:
  "vendas (executa [(''Mouse Logitech'', ''Ana Pereira'', 10, 85, ''2024-02-12''),
                    (''Monitor LG'', ''Carlos Andrade'', 2, 1200, ''2024-01-20'')]) \<noteq> [] \<and>
   map_option nome (gerar_relatorio_vendedor
      (executa [(''Mouse Logitech'', ''Ana Pereira'', 10, 85, ''2024-02-12''),
                (''Monitor LG'', ''Carlos Andrade'', 2, 1200, ''2024-01-20'')]) [])
     = Some ''Ana Pereira'' \<and>
   map_option total_vendas_rel (gerar_relatorio_vendedor
      (executa [(''Mouse Logitech'', ''Ana Pereira'', 10, 85, ''2024-02-12''),
                (''Monitor LG'', ''Carlos Andrade'', 2, 1200, ''2024-01-20'')]) [])
     = Some 3250 \<and>
   map_option quantidade_transacoes (gerar_relatorio_vendedor
      (executa [(''Mouse Logitech'', ''Ana Pereira'', 10, 85, ''2024-02-12''),
                (''Monitor LG'', ''Carlos Andrade'', 2, 1200, ''2024-01-20'')]) [])
     = Some 2"
proof -
  have a: "vendas (executa [(''Mouse Logitech'', ''Ana Pereira'', 10, 85, ''2024-02-12''),
                    (''Monitor LG'', ''Carlos Andrade'', 2, 1200, ''2024-01-20'')]) \<noteq> []"
    by code_simp
  have b: "vendedor (hd (vendas
      (executa [(''Mouse Logitech'', ''Ana Pereira'', 10, 85, ''2024-02-12''),
                (''Monitor LG'', ''Carlos Andrade'', 2, 1200, ''2024-01-20'')])))
     = ''Ana Pereira''"
    by code_simp
  have c: "calcular_total_vendas
      (executa [(''Mouse Logitech'', ''Ana Pereira'', 10, 85, ''2024-02-12''),
                (''Monitor LG'', ''Carlos Andrade'', 2, 1200, ''2024-01-20'')]) = 3250"
    by code_simp
  have d: "length (vendas
      (executa [(''Mouse Logitech'', ''Ana Pereira'', 10, 85, ''2024-02-12''),
                (''Monitor LG'', ''Carlos Andrade'', 2, 1200, ''2024-01-20'')])) = 2"
    by code_simp
  from gerar_relatorio_vendedor_nome_vazio [OF a] a b c d show ?thesis by auto
qed

section \<open>Rankings\<close>

lemma slice_to_nonneg: "0 \<le> n \<Longrightarrow> slice_to xs n = take (nat n) xs"
  by (simp add: slice_to_def)

lemma sorted_reverse_desc: "sorted (rev (map f (sorted_reverse f xs)))"
  by (simp add: sorted_reverse_def rev_map)

lemma sorted_reverse_stable:
  "filter (\<lambda>x. f x = k) (sorted_reverse f xs) = filter (\<lambda>x. f x = k) xs"
  by (simp add: sorted_reverse_def rev_filter [symmetric] sort_key_stable)

lemma sorted_reverse_length: "length (sorted_reverse f xs) = length xs"
  by (simp add: sorted_reverse_def)

lemma ranking_vendedores_decrescente:
  "sorted_wrt (\<lambda>a b. snd b \<le> snd a) (ranking_vendedores s limite)"
proof -
  let ?f = "\<lambda>item :: string \<times> stats_vendedor. total_vendas (snd item)"
  let ?xs = "sorted_reverse ?f (calcular_vendas_por_vendedor s)"
  have "sorted (rev (map ?f ?xs))" by (rule sorted_reverse_desc)
  then have "sorted_wrt (\<lambda>a b. b \<le> a) (map ?f ?xs)"
    by (simp add: sorted_wrt_rev)
  then have "sorted_wrt (\<lambda>a b. ?f b \<le> ?f a) ?xs"
    by (simp add: sorted_wrt_map)
  then have "sorted_wrt (\<lambda>a b. ?f b \<le> ?f a) (slice_to ?xs limite)"
    by (simp add: slice_to_def sorted_wrt_take)
  then show ?thesis
    by (simp add: ranking_vendedores_def sorted_wrt_map case_prod_beta)
qed

lemma ranking_vendedores_estavel:
  "filter (\<lambda>e. snd e = t)
     (ranking_vendedores s (int (length (calcular_vendas_por_vendedor s))))
   = filter (\<lambda>e. snd e = t)
       (map (\<lambda>(nome, dados). (nome, total_vendas dados)) (calcular_vendas_por_vendedor s))"
proof -
  let ?f = "\<lambda>item :: string \<times> stats_vendedor. total_vendas (snd item)"
  let ?g = "(\<lambda>(nome, dados). (nome, total_vendas dados))
    :: string \<times> stats_vendedor \<Rightarrow> string \<times> pyfloat"
  let ?A = "calcular_vendas_por_vendedor s"
  have "ranking_vendedores s (int (length ?A)) = map ?g (sorted_reverse ?f ?A)"
    by (simp add: ranking_vendedores_def slice_to_def sorted_reverse_length)
  moreover have "filter (\<lambda>e. snd e = t) (map ?g xs) = map ?g (filter (\<lambda>x. ?f x = t) xs)" for xs
    by (induction xs) auto
  ultimately show ?thesis by (simp add: sorted_reverse_stable)
qed

text \<open>
  C8. For a limit that is not negative, \<open>ranking_vendedores(limite)\<close> is the slice
  \<open>[:limite]\<close> of \<open>ranking_vendedores(limite + 10)\<close>, whatever the number of sellers,
  and the ranking is in descending order of total. (Equal totals keep the order of the
  dictionary: \<open>ranking_vendedores_estavel\<close>.)
\<close>

theorem ranking_vendedores_prefixo:
  "0 \<le> limite \<Longrightarrow>
     ranking_vendedores s limite = slice_to (ranking_vendedores s (limite + 10)) limite \<and>
     sorted_wrt (\<lambda>a b. snd b \<le> snd a) (ranking_vendedores s limite)"
  using ranking_vendedores_decrescente [of s limite]
  by (simp add: ranking_vendedores_def slice_to_nonneg take_map min_def)

theorem ranking_vendedores_prefixo_witness:
  "ranking_vendedores (executa
      [(''Notebook'', ''Maria'', 2, 3500, ''2024-01-15''),
       (''Mouse'', ''Joao'', 5, 90, ''2024-01-16''),
       (''Teclado'', ''Maria'', 3, 250, ''2024-01-17''),
       (''Monitor'', ''Carlos'', 2, 1200, ''2024-01-20'')]) 2
     = [(''Maria'', 7750), (''Carlos'', 2400)] \<and>
   slice_to (ranking_vendedores (executa
      [(''Notebook'', ''Maria'', 2, 3500, ''2024-01-15''),
       (''Mouse'', ''Joao'', 5, 90, ''2024-01-16''),
       (''Teclado'', ''Maria'', 3, 250, ''2024-01-17''),
       (''Monitor'', ''Carlos'', 2, 1200, ''2024-01-20'')]) 12) 2
     = [(''Maria'', 7750), (''Carlos'', 2400)]"
proof -
  have a: "ranking_vendedores (executa
      [(''Notebook'', ''Maria'', 2, 3500, ''2024-01-15''),
       (''Mouse'', ''Joao'', 5, 90, ''2024-01-16''),
       (''Teclado'', ''Maria'', 3, 250, ''2024-01-17''),
       (''Monitor'', ''Carlos'', 2, 1200, ''2024-01-20'')]) 2
     = [(''Maria'', 7750), (''Carlos'', 2400)]"
    by code_simp
  from a ranking_vendedores_prefixo [of 2 "executa
      [(''Notebook'', ''Maria'', 2, 3500, ''2024-01-15''),
       (''Mouse'', ''Joao'', 5, 90, ''2024-01-16''),
       (''Teclado'', ''Maria'', 3, 250, ''2024-01-17''),
       (''Monitor'', ''Carlos'', 2, 1200, ''2024-01-20'')]"]
  show ?thesis by simp
qed

section \<open>The best month\<close>

lemma upsert_keys: "fst ` set (upsert k f d kvs) = insert k (fst ` set kvs)"
  by (induction k f d kvs rule: upsert.induct) auto

lemma upsert_distinct: "distinct (map fst kvs) \<Longrightarrow> distinct (map fst (upsert k f d kvs))"
proof (induction k f d kvs rule: upsert.induct)
  case (1 k f d)
  show ?case by simp
next
  case (2 k f d k' v kvs)
  show ?case
  proof (cases "k = k'")
    case True
    with "2.prems" show ?thesis by simp
  next
    case False
    with 2 have d: "distinct (map fst (upsert k f d kvs))" by simp
    from False "2.prems" have "k' \<notin> fst ` set (upsert k f d kvs)"
      by (simp add: upsert_keys)
    with d False show ?thesis by simp
  qed
qed

lemma upsert_not_Nil: "upsert k f d kvs \<noteq> []"
  by (induction k f d kvs rule: upsert.induct) auto

lemma max_from_mem: "max_from f m xs \<in> set (m # xs)"
  by (induction xs arbitrary: m) auto

lemma max_from_ge:
  fixes f :: "'a \<Rightarrow> 'b::linorder"
  shows "x \<in> set (m # xs) \<Longrightarrow> f x \<le> f (max_from f m xs)"
proof (induction xs arbitrary: m x)
  case Nil
  then show ?case by simp
next
  case (Cons y ys)
  let ?m = "if f m < f y then y else m"
  have m: "f m \<le> f (max_from f ?m ys)"
  proof -
    have "f m \<le> f ?m" by auto
    also have "f ?m \<le> f (max_from f ?m ys)" by (rule Cons.IH) simp
    finally show ?thesis .
  qed
  have y: "f y \<le> f (max_from f ?m ys)"
  proof -
    have "f y \<le> f ?m" by auto
    also have "f ?m \<le> f (max_from f ?m ys)" by (rule Cons.IH) simp
    finally show ?thesis .
  qed
  from Cons.prems consider "x = m" | "x = y" | "x \<in> set ys" by auto
  then show ?case
  proof cases
    case 1 with m show ?thesis by simp
  next
    case 2 with y show ?thesis by simp
  next
    case 3
    then have "f x \<le> f (max_from f ?m ys)" by (intro Cons.IH) simp
    then show ?thesis by simp
  qed
qed

lemma max_from_first:
  fixes f :: "'a \<Rightarrow> 'b::linorder" and g :: "'a \<Rightarrow> 'c::linorder"
  shows "sorted_wrt (\<lambda>a b. g a < g b) (m # xs) \<Longrightarrow> x \<in> set (m # xs)
     \<Longrightarrow> f x = f (max_from f m xs) \<Longrightarrow> g (max_from f m xs) \<le> g x"
proof (induction xs arbitrary: m x)
  case Nil
  then show ?case by simp
next
  case (Cons y ys)
  let ?m = "if f m < f y then y else m"
  let ?r = "max_from f ?m ys"
  have r: "max_from f m (y # ys) = ?r" by simp
  from Cons.prems(1) have s: "sorted_wrt (\<lambda>a b. g a < g b) (?m # ys)" by auto
  have ge: "f ?m \<le> f ?r" by (rule max_from_ge) simp
  from Cons.prems(2) consider "x \<in> set (?m # ys)" | "x = m" "f m < f y" | "x = y" "\<not> f m < f y"
    by (cases "f m < f y") auto
  then show ?case
  proof cases
    case 1
    with s Cons.prems(3) show ?thesis unfolding r by (intro Cons.IH) auto
  next
    case 2
    with ge Cons.prems(3) show ?thesis by auto
  next
    case 3
    with ge Cons.prems(3) have "f m = f ?r" by auto
    with s 3 have "g ?r \<le> g m" by (intro Cons.IH) auto
    moreover from Cons.prems(1) have "g m < g y" by simp
    ultimately show ?thesis using 3 by simp
  qed
qed

lemma soma_mes_distinct:
  "distinct (map fst st) \<Longrightarrow> distinct (map fst (foldl (soma_mes mes) st vs))"
  by (induction vs arbitrary: st) (simp_all add: soma_mes_def upsert_distinct)

lemma soma_mes_not_Nil: "st \<noteq> [] \<Longrightarrow> foldl (soma_mes mes) st vs \<noteq> []"
  by (induction vs arbitrary: st) (simp_all add: soma_mes_def upsert_not_Nil)

lemma soma_mes_not_Nil2: "vs \<noteq> [] \<Longrightarrow> foldl (soma_mes mes) [] vs \<noteq> []"
  by (cases vs) (simp_all add: soma_mes_not_Nil soma_mes_def)

lemma distinct_map_sort_key: "distinct (map f (sort_key f xs)) = distinct (map f xs)"
  by (simp add: distinct_map)

lemma melhor_de_agrupado:
  fixes mes :: "'a venda_base_scheme \<Rightarrow> string" and vs :: "'a venda_base_scheme list"
  defines "A \<equiv> sort_key fst (foldl (soma_mes mes) [] vs)"
  shows "(vs = [] \<longrightarrow> melhor_de A = (None, 0)) \<and>
         (vs \<noteq> [] \<longrightarrow>
            (\<exists>m t. melhor_de A = (Some m, t) \<and> (m, t) \<in> set A \<and>
               (\<forall>(m', t') \<in> set A. t' \<le> t \<and> (t' = t \<longrightarrow> m \<le> m')))) \<and>
         sorted (map fst A) \<and> distinct (map fst A)"
proof -
  have d: "distinct (map fst A)"
    unfolding A_def by (simp add: distinct_map_sort_key soma_mes_distinct)
  have s: "sorted (map fst A)"
    unfolding A_def by (rule sorted_sort_key)
  from s d have "sorted_wrt (<) (map fst A)"
    unfolding strict_sorted_iff by blast
  then have ss: "sorted_wrt (\<lambda>a b. fst a < fst b) A"
    by (simp add: sorted_wrt_map)
  have e: "vs = [] \<longrightarrow> melhor_de A = (None, 0)"
    by (simp add: A_def melhor_de_def max_key_def)
  have n: "vs \<noteq> [] \<longrightarrow>
            (\<exists>m t. melhor_de A = (Some m, t) \<and> (m, t) \<in> set A \<and>
               (\<forall>(m', t') \<in> set A. t' \<le> t \<and> (t' = t \<longrightarrow> m \<le> m')))"
  proof
    assume "vs \<noteq> []"
    then have "A \<noteq> []"
      unfolding A_def using soma_mes_not_Nil2 [of vs mes]
      by (metis length_sort list.size(3) length_0_conv)
    then obtain a as where A: "A = a # as" by (cases A) auto
    let ?r = "max_from snd a as"
    have m: "melhor_de A = (Some (fst ?r), snd ?r)"
      by (simp add: A melhor_de_def max_key_def case_prod_beta)
    have i: "(fst ?r, snd ?r) \<in> set A"
      using max_from_mem [of snd a as] A by simp
    have g: "\<forall>(m', t') \<in> set A. t' \<le> snd ?r \<and> (t' = snd ?r \<longrightarrow> fst ?r \<le> m')"
    proof (clarify, intro conjI impI)
      fix m' t' assume x: "(m', t') \<in> set A"
      with A show "t' \<le> snd ?r" using max_from_ge [of "(m', t')" a as snd] by simp
      assume "t' = snd ?r"
      with x A ss show "fst ?r \<le> m'"
        using max_from_first [of fst a as "(m', t')" snd] by simp
    qed
    from m i g show "\<exists>m t. melhor_de A = (Some m, t) \<and> (m, t) \<in> set A \<and>
               (\<forall>(m', t') \<in> set A. t' \<le> t \<and> (t' = t \<longrightarrow> m \<le> m'))"
      by blast
  qed
  from e n s d show ?thesis by blast
qed

text \<open>
  C7. On an empty ledger \<open>melhor_mes\<close> returns \<open>(None, 0.0)\<close>. Otherwise it returns a
  pair \<open>(month, total)\<close> of \<open>calcular_vendas_por_mes\<close> whose total is the greatest, and of
  the months with that total the one with the least key; the keys of
  \<open>calcular_vendas_por_mes\<close> are distinct and in ascending order. In both files.
\<close>

theorem melhor_mes_maximo:
  "(vendas s = [] \<longrightarrow> melhor_mes s = (None, 0)) \<and>
   (vendas s \<noteq> [] \<longrightarrow>
      (\<exists>m t. melhor_mes s = (Some m, t) \<and> (m, t) \<in> set (calcular_vendas_por_mes s) \<and>
         (\<forall>(m', t') \<in> set (calcular_vendas_por_mes s). t' \<le> t \<and> (t' = t \<longrightarrow> m \<le> m')))) \<and>
   sorted (map fst (calcular_vendas_por_mes s)) \<and>
   distinct (map fst (calcular_vendas_por_mes s)) \<and>
   (vendas s' = [] \<longrightarrow> SistemaVendas_melhor_mes s' = (None, 0)) \<and>
   (vendas s' \<noteq> [] \<longrightarrow>
      (\<exists>m t. SistemaVendas_melhor_mes s' = (Some m, t) \<and>
         (m, t) \<in> set (SistemaVendas_calcular_vendas_por_mes s') \<and>
         (\<forall>(m', t') \<in> set (SistemaVendas_calcular_vendas_por_mes s').
            t' \<le> t \<and> (t' = t \<longrightarrow> m \<le> m')))) \<and>
   sorted (map fst (SistemaVendas_calcular_vendas_por_mes s')) \<and>
   distinct (map fst (SistemaVendas_calcular_vendas_por_mes s'))"
  using melhor_de_agrupado [of "vendas s" "\<lambda>venda. extrair_mes (data venda)"]
    melhor_de_agrupado [of "vendas s'" "\<lambda>venda. SistemaVendas_extrair_mes (data_obj venda)"]
  unfolding melhor_mes_def SistemaVendas_melhor_mes_def calcular_vendas_por_mes_def
    SistemaVendas_calcular_vendas_por_mes_def
  by simp

theorem melhor_mes_maximo_witness:
  "calcular_vendas_por_mes (executa
      [(''Monitor'', ''Ana'', 1, 100, ''2024-02-03''),
       (''Mouse'', ''Bia'', 1, 60, ''2024-01-10''),
       (''Teclado'', ''Ana'', 1, 50, ''2024-03-01''),
       (''Mouse'', ''Caio'', 1, 40, ''2024-01-25'')])
     = [(''2024-01'', 100), (''2024-02'', 100), (''2024-03'', 50)] \<and>
   melhor_mes (executa
      [(''Monitor'', ''Ana'', 1, 100, ''2024-02-03''),
       (''Mouse'', ''Bia'', 1, 60, ''2024-01-10''),
       (''Teclado'', ''Ana'', 1, 50, ''2024-03-01''),
       (''Mouse'', ''Caio'', 1, 40, ''2024-01-25'')])
     = (Some ''2024-01'', 100) \<and>
   SistemaVendas_melhor_mes (SistemaVendas_executa
      [(''Monitor'', ''Ana'', 1, 100, ''2024-02-03''),
       (''Mouse'', ''Bia'', 1, 60, ''2024-01-10''),
       (''Teclado'', ''Ana'', 1, 50, ''2024-03-01''),
       (''Mouse'', ''Caio'', 1, 40, ''2024-01-25'')])
     = (Some ''2024-01'', 100) \<and>
   melhor_mes inicial = (None, 0) \<and>
   SistemaVendas_melhor_mes inicial = (None, 0)"
proof -
  let ?cs = "[(''Monitor'', ''Ana'', 1, 100, ''2024-02-03''),
       (''Mouse'', ''Bia'', 1, 60, ''2024-01-10''),
       (''Teclado'', ''Ana'', 1, 50, ''2024-03-01''),
       (''Mouse'', ''Caio'', 1, 40, ''2024-01-25'')]"
  have a: "calcular_vendas_por_mes (executa ?cs)
     = [(''2024-01'', 100), (''2024-02'', 100), (''2024-03'', 50)]"
    by code_simp
  have a': "SistemaVendas_calcular_vendas_por_mes (SistemaVendas_executa ?cs)
     = [(''2024-01'', 100), (''2024-02'', 100), (''2024-03'', 50)]"
    by code_simp
  have b: "vendas (executa ?cs) \<noteq> []"
    by code_simp
  have b': "vendas (SistemaVendas_executa ?cs) \<noteq> []"
    by code_simp
  have c: "\<not> ''2024-02'' \<le> ''2024-01''"
    by code_simp
  from a a' b b' c melhor_mes_maximo [of "executa ?cs" "SistemaVendas_executa ?cs"]
  have "melhor_mes (executa ?cs) = (Some ''2024-01'', 100) \<and>
        SistemaVendas_melhor_mes (SistemaVendas_executa ?cs) = (Some ''2024-01'', 100)"
    by auto
  moreover from melhor_mes_maximo [of inicial inicial]
  have "melhor_mes inicial = (None, 0) \<and> SistemaVendas_melhor_mes inicial = (None, 0)"
    by (simp add: inicial_def)
  ultimately show ?thesis using a by simp
qed

section \<open>Conservation of the revenue\<close>

text \<open>
  The three sums are float sums of the same amounts in three groupings: the ledger order,
  the sellers, the products. Float addition rounds, so the groupings agree when no partial
  sum rounds: \<open>somas_exatas\<close> asks that the sum of every selection of the stored totals
  is a float.
\<close>

lemma somas_exatas_iff:
  "somas_exatas ts \<longleftrightarrow> (\<forall>ys. subseq ys ts \<longrightarrow> fl (sum_list ys) = sum_list ys)"
  by (auto simp add: somas_exatas_def list_all_iff)

lemma somas_exatas_prefixo: "somas_exatas (ts @ us) \<Longrightarrow> somas_exatas ts"
  unfolding somas_exatas_iff by auto

lemma somas_exatas_filter:
  "somas_exatas (map f vs) \<Longrightarrow>
     fl (sum_list (map f (filter P vs))) = sum_list (map f (filter P vs))"
  unfolding somas_exatas_iff by (metis subseq_filter_left subseq_map)

lemma somas_exatas_todas: "somas_exatas ts \<Longrightarrow> fl (sum_list ts) = sum_list ts"
  unfolding somas_exatas_iff by auto

lemma py_sum_exato: "somas_exatas ts \<Longrightarrow> py_sum ts = sum_list ts"
proof (induction ts rule: rev_induct)
  case Nil
  show ?case by (simp add: py_sum_def)
next
  case (snoc t ts)
  from snoc.prems have "somas_exatas ts" by (rule somas_exatas_prefixo)
  then have "py_sum ts = sum_list ts" by (rule snoc.IH)
  then have "py_sum (ts @ [t]) = fl (sum_list (ts @ [t]))"
    by (simp add: py_sum_def float_add_def)
  with snoc.prems show ?case by (simp only: somas_exatas_todas)
qed

lemma map_of_upsert:
  "map_of (upsert k f d kvs) =
     (map_of kvs)(k \<mapsto> f (case map_of kvs k of None \<Rightarrow> d | Some v \<Rightarrow> v))"
  by (induction k f d kvs rule: upsert.induct) (auto simp add: fun_eq_iff)

text \<open>The sums over two disjoint selections of the sales add up to the sum over their union.\<close>

lemma soma_filter_disjunta:
  "(\<And>v. v \<in> set vs \<Longrightarrow> \<not> (P v \<and> Q v)) \<Longrightarrow>
     sum_list (map f (filter P vs)) + sum_list (map f (filter Q vs))
       = (sum_list (map f (filter (\<lambda>v. P v \<or> Q v) vs)) :: rat)"
  by (induction vs) auto

text \<open>
  The grouped loop of \<open>calcular_vendas_por_vendedor\<close> and \<open>calcular_vendas_por_produto\<close>,
  for any key and any update of the counter: the keys are distinct, they are the keys of
  the sales, and each total is the sum of its group (lemma \<open>grupo_exato\<close>); the sum of
  the group totals is then the sum of all the amounts (lemma \<open>total_grupos\<close>).
\<close>

lemma grupo_exato:
  fixes key :: "'a venda_base_scheme \<Rightarrow> string"
    and h :: "'a venda_base_scheme \<Rightarrow> int \<Rightarrow> int"
    and vs :: "'a venda_base_scheme list"
  assumes "somas_exatas (map valor_total vs)"
  shows "distinct (map fst
           (foldl (\<lambda>stats v. upsert (key v)
              (\<lambda>(tot, qtd). (float_add tot (valor_total v), h v qtd)) (0, 0) stats) [] vs)) \<and>
         (\<forall>k. case map_of
           (foldl (\<lambda>stats v. upsert (key v)
              (\<lambda>(tot, qtd). (float_add tot (valor_total v), h v qtd)) (0, 0) stats) [] vs) k of
             None \<Rightarrow> k \<notin> key ` set vs
           | Some (tot, qtd) \<Rightarrow> k \<in> key ` set vs \<and>
               tot = sum_list (map valor_total (filter (\<lambda>v. key v = k) vs)))"
  using assms
proof (induction vs rule: rev_induct)
  case Nil
  show ?case by simp
next
  case (snoc v vs)
  let ?step = "\<lambda>stats v. upsert (key v)
              (\<lambda>(tot, qtd). (float_add tot (valor_total v), h v qtd)) (0, 0) stats"
  let ?st = "foldl ?step [] vs"
  let ?G = "\<lambda>k ws. sum_list (map valor_total (filter (\<lambda>v. key v = k) ws))"
  from snoc.prems have "somas_exatas (map valor_total vs)"
    by (simp add: somas_exatas_prefixo)
  then have d: "distinct (map fst ?st)"
    and m: "\<And>k. case map_of ?st k of
             None \<Rightarrow> k \<notin> key ` set vs
           | Some (tot, qtd) \<Rightarrow> k \<in> key ` set vs \<and> tot = ?G k vs"
    using snoc.IH by blast+
  have f: "foldl ?step [] (vs @ [v]) = ?step ?st v" by simp
  have ex: "fl (?G (key v) (vs @ [v])) = ?G (key v) (vs @ [v])"
    using snoc.prems by (rule somas_exatas_filter)
  have old: "fst (case map_of ?st (key v) of None \<Rightarrow> (0, 0) | Some x \<Rightarrow> x) = ?G (key v) vs"
  proof (cases "map_of ?st (key v)")
    case None
    with m [of "key v"] have "key v \<notin> key ` set vs" by simp
    then have "filter (\<lambda>w. key w = key v) vs = []"
      by (simp add: filter_empty_conv) (metis imageI)
    with None show ?thesis by simp
  next
    case (Some x)
    with m [of "key v"] show ?thesis by (cases x) simp
  qed
  have new: "fst ((\<lambda>(tot, qtd). (float_add tot (valor_total v), h v qtd))
       (case map_of ?st (key v) of None \<Rightarrow> (0, 0) | Some x \<Rightarrow> x)) = ?G (key v) (vs @ [v])"
  proof -
    have "fst ((\<lambda>(tot, qtd). (float_add tot (valor_total v), h v qtd))
       (case map_of ?st (key v) of None \<Rightarrow> (0, 0) | Some x \<Rightarrow> x))
      = fl (?G (key v) vs + valor_total v)"
      using old by (simp add: case_prod_beta float_add_def)
    also have "\<dots> = fl (?G (key v) (vs @ [v]))" by simp
    finally show ?thesis using ex by simp
  qed
  have "distinct (map fst (?step ?st v))"
    using d by (rule upsert_distinct)
  moreover have "case map_of (?step ?st v) k of
             None \<Rightarrow> k \<notin> key ` set (vs @ [v])
           | Some (tot, qtd) \<Rightarrow> k \<in> key ` set (vs @ [v]) \<and> tot = ?G k (vs @ [v])" for k
  proof (cases "k = key v")
    case True
    with new show ?thesis
      by (simp add: map_of_upsert case_prod_beta)
  next
    case False
    with m [of k] show ?thesis
      by (auto simp add: map_of_upsert split: option.splits)
  qed
  ultimately show ?case unfolding f by blast
qed


lemma soma_grupos:
  fixes key :: "'a venda_base_scheme \<Rightarrow> string" and vs :: "'a venda_base_scheme list"
  assumes "somas_exatas (map valor_total vs)"
  shows "distinct ks \<Longrightarrow> set ks \<inter> K = {} \<Longrightarrow>
     foldl float_add (sum_list (map valor_total (filter (\<lambda>v. key v \<in> K) vs)))
       (map (\<lambda>k. sum_list (map valor_total (filter (\<lambda>v. key v = k) vs))) ks)
     = sum_list (map valor_total (filter (\<lambda>v. key v \<in> K \<union> set ks) vs))"
proof (induction ks arbitrary: K)
  case Nil
  show ?case by simp
next
  case (Cons k ks)
  let ?S = "\<lambda>K. sum_list (map valor_total (filter (\<lambda>v. key v \<in> K) vs))"
  let ?G = "\<lambda>k. sum_list (map valor_total (filter (\<lambda>v. key v = k) vs))"
  from Cons.prems have k: "k \<notin> K" by auto
  then have "?S K + ?G k = sum_list (map valor_total (filter (\<lambda>v. key v \<in> K \<or> key v = k) vs))"
    by (intro soma_filter_disjunta) auto
  also have "(\<lambda>v. key v \<in> K \<or> key v = k) = (\<lambda>v. key v \<in> insert k K)" by auto
  finally have "float_add (?S K) (?G k) = fl (?S (insert k K))"
    by (simp add: float_add_def)
  also have "\<dots> = ?S (insert k K)" using assms by (rule somas_exatas_filter)
  finally have a: "float_add (?S K) (?G k) = ?S (insert k K)" .
  from Cons.prems have "distinct ks" "set ks \<inter> insert k K = {}" by auto
  then have "foldl float_add (?S (insert k K)) (map ?G ks) = ?S (insert k K \<union> set ks)"
    by (rule Cons.IH)
  with a show ?case by simp
qed

lemma total_grupos:
  fixes key :: "'a venda_base_scheme \<Rightarrow> string"
    and h :: "'a venda_base_scheme \<Rightarrow> int \<Rightarrow> int"
    and vs :: "'a venda_base_scheme list"
  assumes "somas_exatas (map valor_total vs)"
  shows "py_sum (map (\<lambda>(k, tot, qtd). tot)
           (foldl (\<lambda>stats v. upsert (key v)
              (\<lambda>(tot, qtd). (float_add tot (valor_total v), h v qtd)) (0, 0) stats) [] vs))
         = sum_list (map valor_total vs)"
proof -
  let ?st = "foldl (\<lambda>stats v. upsert (key v)
              (\<lambda>(tot, qtd). (float_add tot (valor_total v), h v qtd)) (0, 0) stats) [] vs"
  let ?G = "\<lambda>k. sum_list (map valor_total (filter (\<lambda>v. key v = k) vs))"
  from grupo_exato [OF assms, of key h]
  have d: "distinct (map fst ?st)"
    and m: "\<And>k. case map_of ?st k of
             None \<Rightarrow> k \<notin> key ` set vs
           | Some (tot, qtd) \<Rightarrow> k \<in> key ` set vs \<and> tot = ?G k"
    by blast+
  have g: "(case e of (k, tot, qtd) \<Rightarrow> tot) = ?G (fst e)" if "e \<in> set ?st" for e
  proof -
    obtain k tot qtd where e: "e = (k, tot, qtd)" by (cases e)
    with that d have "map_of ?st k = Some (tot, qtd)" by simp
    with m [of k] e show ?thesis by simp
  qed
  have keys: "set (map fst ?st) = key ` set vs"
  proof (intro set_eqI iffI)
    fix k assume "k \<in> set (map fst ?st)"
    then have "map_of ?st k \<noteq> None" by (simp add: map_of_eq_None_iff)
    then obtain x where "map_of ?st k = Some x" by auto
    with m [of k] show "k \<in> key ` set vs" by (cases x) simp
  next
    fix k assume "k \<in> key ` set vs"
    with m [of k] have "map_of ?st k \<noteq> None" by (auto split: option.splits)
    then show "k \<in> set (map fst ?st)" by (simp add: map_of_eq_None_iff)
  qed
  have mm: "map (\<lambda>(k, tot, qtd). tot) ?st = map ?G (map fst ?st)"
    using g by (simp add: map_eq_conv)
  have "py_sum (map (\<lambda>(k, tot, qtd). tot) ?st) = foldl float_add 0 (map ?G (map fst ?st))"
    unfolding py_sum_def by (rule arg_cong [OF mm])
  also have "\<dots>
      = foldl float_add (sum_list (map valor_total (filter (\<lambda>v. key v \<in> {}) vs)))
          (map ?G (map fst ?st))"
    by simp
  also have "\<dots> = sum_list (map valor_total (filter (\<lambda>v. key v \<in> {} \<union> set (map fst ?st)) vs))"
    using assms d by (intro soma_grupos) auto
  also have "filter (\<lambda>v. key v \<in> {} \<union> set (map fst ?st)) vs = vs"
    unfolding keys by (simp add: filter_id_conv)
  finally show ?thesis .
qed

text \<open>
  C4, amended. When the sum of every selection of the stored totals is exactly
  representable as a float, the sum of the per-seller totals and the sum of the
  per-product revenues are both equal to \<open>calcular_total_vendas()\<close>. The statement is
  about any ledger of either file.
\<close>

theorem conservacao_da_receita:
  "somas_exatas (map valor_total (vendas s)) \<Longrightarrow>
     soma_totais_vendedor s = calcular_total_vendas s \<and>
     soma_receitas_produto s = calcular_total_vendas s"
proof -
  assume e: "somas_exatas (map valor_total (vendas s))"
  have t: "calcular_total_vendas s = sum_list (map valor_total (vendas s))"
    using py_sum_exato [OF e] by (simp add: calcular_total_vendas_def)
  have v: "soma_vendedor = (\<lambda>stats v. upsert (vendedor v)
              (\<lambda>(tot, qtd). (float_add tot (valor_total v), (\<lambda>v q. q + 1) v qtd)) (0, 0) stats)"
    by (simp add: fun_eq_iff soma_vendedor_def)
  have p: "soma_produto = (\<lambda>stats v. upsert (produto v)
              (\<lambda>(tot, qtd). (float_add tot (valor_total v), (\<lambda>v q. q + quantidade v) v qtd))
              (0, 0) stats)"
    by (simp add: fun_eq_iff soma_produto_def)
  have "soma_totais_vendedor s
      = py_sum (map (\<lambda>(k, tot, qtd). tot) (foldl soma_vendedor [] (vendas s)))"
    by (simp add: soma_totais_vendedor_def calcular_vendas_por_vendedor_def split_def
        comp_def)
  also have "\<dots> = sum_list (map valor_total (vendas s))"
    unfolding v using e by (rule total_grupos)
  finally have a: "soma_totais_vendedor s = calcular_total_vendas s" using t by simp
  have "soma_receitas_produto s
      = py_sum (map (\<lambda>(k, tot, qtd). tot) (foldl soma_produto [] (vendas s)))"
    by (simp add: soma_receitas_produto_def calcular_vendas_por_produto_def split_def
        comp_def)
  also have "\<dots> = sum_list (map valor_total (vendas s))"
    unfolding p using e by (rule total_grupos)
  finally have b: "soma_receitas_produto s = calcular_total_vendas s" using t by simp
  from a b show ?thesis by simp
qed

theorem conservacao_da_receita_witness:
  "soma_totais_vendedor
     (executa [(''Caneta'', ''Ana'', 1, 1 / 2, ''2024-01-15''),
               (''Caneta'', ''Bia'', 1, 1 / 4, ''2024-01-16''),
               (''Lapis'', ''Bia'', 2, 1, ''2024-02-17'')]) = 11 / 4 \<and>
   soma_receitas_produto
     (executa [(''Caneta'', ''Ana'', 1, 1 / 2, ''2024-01-15''),
               (''Caneta'', ''Bia'', 1, 1 / 4, ''2024-01-16''),
               (''Lapis'', ''Bia'', 2, 1, ''2024-02-17'')]) = 11 / 4 \<and>
   soma_totais_vendedor
     (SistemaVendas_executa [(''Caneta'', ''Ana'', 1, 1 / 2, ''2024-01-15''),
               (''Caneta'', ''Bia'', 1, 1 / 4, ''2024-01-16''),
               (''Lapis'', ''Bia'', 2, 1, ''2024-02-17'')]) = 11 / 4"
proof -
  let ?cs = "[(''Caneta'', ''Ana'', 1, 1 / 2, ''2024-01-15''),
               (''Caneta'', ''Bia'', 1, 1 / 4, ''2024-01-16''),
               (''Lapis'', ''Bia'', 2, 1, ''2024-02-17'')]"
  have e: "somas_exatas (map valor_total (vendas (executa ?cs)))"
    by code_simp
  have e': "somas_exatas (map valor_total (vendas (SistemaVendas_executa ?cs)))"
    by code_simp
  have t: "calcular_total_vendas (executa ?cs) = 11 / 4"
    by code_simp
  have t': "calcular_total_vendas (SistemaVendas_executa ?cs) = 11 / 4"
    by code_simp
  from conservacao_da_receita [OF e] conservacao_da_receita [OF e'] t t'
  show ?thesis by simp
qed

text \<open>
  C4, as stated, fails: with the amounts 0.1, 0.2 and 0.3, the sellers group them as
  0.1 + (0.2 + 0.3) and the products as (0.1 + 0.2) + 0.3, which are 0.6 and
  0.6000000000000001.
\<close>

theorem conservacao_da_receita_counterexample:
  "soma_totais_vendedor
     (executa [(''Caneta'', ''Ana'', 1, fl (1 / 10), ''2024-01-15''),
               (''Caneta'', ''Bia'', 1, fl (2 / 10), ''2024-01-16''),
               (''Lapis'', ''Bia'', 1, fl (3 / 10), ''2024-01-17'')])
   \<noteq> soma_receitas_produto
     (executa [(''Caneta'', ''Ana'', 1, fl (1 / 10), ''2024-01-15''),
               (''Caneta'', ''Bia'', 1, fl (2 / 10), ''2024-01-16''),
               (''Lapis'', ''Bia'', 1, fl (3 / 10), ''2024-01-17'')])"
  by code_simp

end
